theory Spec2Isabelle
  imports Main "HOL-Library.Char_ord" "HOL-Library.List_Lexorder" "HOL-Library.Product_Lexorder"
begin

section \<open>Python strings\<close>

text \<open>
  Strings are lists of bytes. Comparison of strings is lexicographic on the bytes, which
  for UTF-8 text is Python's comparison by code point. The case functions below are
  those of Python on ASCII letters; other bytes are left as they are.
\<close>

definition is_upper :: "char \<Rightarrow> bool" where
  "is_upper c = (CHR ''A'' \<le> c \<and> c \<le> CHR ''Z'')"

definition is_lower :: "char \<Rightarrow> bool" where
  "is_lower c = (CHR ''a'' \<le> c \<and> c \<le> CHR ''z'')"

definition to_lower :: "char \<Rightarrow> char" where
  "to_lower c = (if is_upper c then char_of (of_char c + (32::nat)) else c)"

definition to_upper :: "char \<Rightarrow> char" where
  "to_upper c = (if is_lower c then char_of (of_char c - (32::nat)) else c)"

definition lower :: "string \<Rightarrow> string" where
  "lower s = map to_lower s"

definition upper :: "string \<Rightarrow> string" where
  "upper s = map to_upper s"

text \<open>\<open>startswith sub s\<close> is Python's \<open>s.startswith(sub)\<close>, \<open>contains sub s\<close> is \<open>sub in s\<close>.\<close>

definition startswith :: "string \<Rightarrow> string \<Rightarrow> bool" where
  "startswith sub s = (take (length sub) s = sub)"

fun contains :: "string \<Rightarrow> string \<Rightarrow> bool" where
  "contains sub [] = (sub = [])"
| "contains sub (c # cs) = (startswith sub (c # cs) \<or> contains sub cs)"

text \<open>
  \<open>str.title\<close>: a cased character is upper-cased when the character before it is not
  cased and lower-cased when it is.
\<close>

fun title_from :: "bool \<Rightarrow> string \<Rightarrow> string" where
  "title_from previous_is_cased [] = []"
| "title_from previous_is_cased (c # cs) =
     (if is_lower c then (if previous_is_cased then c else to_upper c) # title_from True cs
      else if is_upper c then (if previous_is_cased then to_lower c else c) # title_from True cs
      else c # title_from False cs)"

definition title :: "string \<Rightarrow> string" where
  "title s = title_from False s"

text \<open>\<open>join sep xs\<close> is \<open>sep.join(xs)\<close>.\<close>

fun join :: "string \<Rightarrow> string list \<Rightarrow> string" where
  "join sep [] = []"
| "join sep [x] = x"
| "join sep (x # y # ys) = x @ sep @ join sep (y # ys)"

text \<open>
  \<open>split_comma_space acc s\<close> is \<open>s.split(", ")\<close>, scanning from the left with the piece read
  so far kept reversed in \<open>acc\<close>; the separator is the two characters comma and space.
\<close>

fun split_from :: "string \<Rightarrow> string \<Rightarrow> string list" where
  "split_from acc [] = [rev acc]"
| "split_from acc [c] = [rev (c # acc)]"
| "split_from acc (c # d # cs) =
     (if c = CHR '','' \<and> d = CHR '' '' then rev acc # split_from [] cs
      else split_from (c # acc) (d # cs))"

definition split_comma_space :: "string \<Rightarrow> string list" where
  "split_comma_space s = split_from [] s"

section \<open>Tables\<close>

text \<open>
  A pandas column that may hold a missing value (NaN, None) has an option type, with
  \<open>None\<close> the missing value. \<open>ffill\<close> is \<open>Series.ffill\<close>: a missing value takes the last
  value before it that is not missing, and stays missing when there is none.
\<close>

fun ffill_from :: "'a option \<Rightarrow> 'a option list \<Rightarrow> 'a option list" where
  "ffill_from previous [] = []"
| "ffill_from previous (None # xs) = previous # ffill_from previous xs"
| "ffill_from previous (Some v # xs) = Some v # ffill_from (Some v) xs"

definition ffill :: "'a option list \<Rightarrow> 'a option list" where
  "ffill xs = ffill_from None xs"

text \<open>\<open>drop_duplicates\<close> keeps the first occurrence of each value, in the order of the list.\<close>

definition drop_duplicates :: "'a list \<Rightarrow> 'a list" where
  "drop_duplicates xs = rev (remdups (rev xs))"

text \<open>\<open>dict_get m k d\<close> is \<open>m.get(k, d)\<close>.\<close>

definition dict_get :: "('k \<rightharpoonup> 'v) \<Rightarrow> 'k \<Rightarrow> 'v \<Rightarrow> 'v" where
  "dict_get m k d = (case m k of None \<Rightarrow> d | Some v \<Rightarrow> v)"

text \<open>The exceptions of Python that the functions below can raise.\<close>

datatype error = KeyError string | ValueError | TypeError

text \<open>A row of the orders export, of the stock file, and of the cleaned orders table.\<close>

record order_line =
  raw_Name :: "string option"
  raw_Lineitem_sku :: "string option"
  raw_Lineitem_quantity :: int
  raw_Shipping_Method :: "string option"
  raw_Shipping_Country :: "string option"
  raw_Tags :: "string option"
  raw_Notes :: "string option"
  raw_Total :: "string option"

record stock_line =
  Artikul :: "string option"
  Ime :: "string option"
  Nalichnost :: int

record order_item =
  item_Order_Number :: "string option"
  item_SKU :: string
  item_Quantity :: int
  item_Shipping_Method :: "string option"
  item_Shipping_Country :: "string option"
  item_Tags :: "string option"
  item_Notes :: "string option"
  item_Total_Price :: "string option"

record stock_item =
  stock_SKU :: string
  stock_Product_Name :: "string option"
  stock_Stock :: int

text \<open>A row of the analysis table \<open>final_df\<close>, with the columns of \<open>output_columns\<close>.\<close>

record analysis_row =
  Order_Number :: "string option"
  Order_Type :: "string option"
  SKU :: string
  Product_Name :: "string option"
  Quantity :: int
  Total_Price :: "string option"
  Stock :: int
  Final_Stock :: "int option"
  Stock_Alert :: "string option"
  Order_Fulfillment_Status :: "string option"
  Shipping_Provider :: "string option"
  Destination_Country :: "string option"
  Shipping_Method :: "string option"
  Tags :: "string option"
  Notes :: "string option"
  System_note :: "string option"
  Status_Note :: "string option"

section \<open>analysis.py\<close>

subsection \<open>\<open>_generalize_shipping_method\<close>\<close>

definition generalize_shipping_method :: "string option \<Rightarrow> string" where
  "generalize_shipping_method raw =
     (case raw of
        None \<Rightarrow> ''Unknown''
      | Some m \<Rightarrow>
          (let method = lower m in
           if method = [] then ''Unknown''
           else if contains ''dhl'' method then ''DHL''
           else if contains ''dpd'' method then ''DPD''
           else if contains ''international shipping'' method then ''PostOne''
           else title method))"

subsection \<open>\<open>run_analysis\<close>: data cleaning\<close>

text \<open>
  The four \<open>ffill\<close> assignments. A table without the optional column \<open>Total\<close> has it
  missing in every row, and filling it changes nothing.
\<close>

definition ffill_orders :: "order_line list \<Rightarrow> order_line list" where
  "ffill_orders orders_df =
     map2 (\<lambda>r (n, m, c, t).
             r\<lparr>raw_Name := n, raw_Shipping_Method := m, raw_Shipping_Country := c, raw_Total := t\<rparr>)
       orders_df
       (zip (ffill (map raw_Name orders_df))
         (zip (ffill (map raw_Shipping_Method orders_df))
           (zip (ffill (map raw_Shipping_Country orders_df))
                (ffill (map raw_Total orders_df)))))"

text \<open>The columns kept and renamed, and \<open>dropna(subset=["SKU"])\<close>.\<close>

definition orders_clean :: "order_line list \<Rightarrow> order_item list" where
  "orders_clean orders_df =
     concat (map (\<lambda>r. case raw_Lineitem_sku r of
                          None \<Rightarrow> []
                        | Some sku \<Rightarrow>
                            [\<lparr>item_Order_Number = raw_Name r, item_SKU = sku,
                              item_Quantity = raw_Lineitem_quantity r,
                              item_Shipping_Method = raw_Shipping_Method r,
                              item_Shipping_Country = raw_Shipping_Country r,
                              item_Tags = raw_Tags r, item_Notes = raw_Notes r,
                              item_Total_Price = raw_Total r\<rparr>])
                 (ffill_orders orders_df))"

text \<open>
  The stock table: \<open>dropna(subset=["SKU"])\<close>, then
  \<open>drop_duplicates(subset=["SKU"], keep="first")\<close>, with the SKUs already kept in \<open>seen\<close>.
\<close>

fun stock_keep_first :: "string list \<Rightarrow> stock_line list \<Rightarrow> stock_item list" where
  "stock_keep_first seen [] = []"
| "stock_keep_first seen (r # rs) =
     (case Artikul r of
        None \<Rightarrow> stock_keep_first seen rs
      | Some sku \<Rightarrow>
          if sku \<in> set seen then stock_keep_first seen rs
          else \<lparr>stock_SKU = sku, stock_Product_Name = Ime r, stock_Stock = Nalichnost r\<rparr>
                 # stock_keep_first (sku # seen) rs)"

definition stock_clean :: "stock_line list \<Rightarrow> stock_item list" where
  "stock_clean stock_df = stock_keep_first [] stock_df"

subsection \<open>\<open>run_analysis\<close>: fulfillment simulation\<close>

text \<open>
  \<open>groupby("Order_Number").size()\<close>: the orders with their numbers of lines, in the order of
  the order numbers; a line whose order number is missing is in no group.
\<close>

definition order_numbers :: "order_item list \<Rightarrow> string list" where
  "order_numbers items = concat (map (\<lambda>i. case item_Order_Number i of None \<Rightarrow> [] | Some n \<Rightarrow> [n]) items)"

definition order_item_counts :: "order_item list \<Rightarrow> (string \<times> nat) list" where
  "order_item_counts items =
     map (\<lambda>n. (n, length (filter (\<lambda>i. item_Order_Number i = Some n) items)))
       (sort (remdups (order_numbers items)))"

text \<open>
  The inner merge on \<open>Order_Number\<close>: each line with its order number and \<open>item_count\<close>, in
  the order of the lines; a line with no group is dropped.
\<close>

definition orders_with_counts :: "order_item list \<Rightarrow> (order_item \<times> string \<times> nat) list" where
  "orders_with_counts items =
     concat (map (\<lambda>i. case item_Order_Number i of
                          None \<Rightarrow> []
                        | Some n \<Rightarrow> (case map_of (order_item_counts items) n of
                                       None \<Rightarrow> []
                                     | Some c \<Rightarrow> [(i, n, c)]))
                 items)"

text \<open>
  \<open>sort_values(by=["item_count", "Order_Number"], ascending=[False, True])\<close> on the distinct
  pairs of order number and count.
\<close>

definition prioritized_orders :: "(order_item \<times> string \<times> nat) list \<Rightarrow> (string \<times> nat) list" where
  "prioritized_orders owc =
     sort_key (\<lambda>(order_number, item_count). (- int item_count, order_number))
       (drop_duplicates (map snd owc))"

definition live_stock_init :: "stock_item list \<Rightarrow> (string \<rightharpoonup> int)" where
  "live_stock_init stock = map_of (map (\<lambda>s. (stock_SKU s, stock_Stock s)) stock)"

text \<open>The loop that checks the lines of an order, left at the first line that fails.\<close>

fun can_fulfill_order :: "(string \<rightharpoonup> int) \<Rightarrow> order_item list \<Rightarrow> bool" where
  "can_fulfill_order live_stock [] = True"
| "can_fulfill_order live_stock (item # order_items) =
     (if item_Quantity item > dict_get live_stock (item_SKU item) 0 then False
      else can_fulfill_order live_stock order_items)"

text \<open>
  The loop that writes the lines off: \<open>live_stock[item["SKU"]] -= item["Quantity"]\<close> reads
  the entry before it writes it, and raises \<open>KeyError\<close> when the SKU is not a key.
\<close>

fun write_off :: "(string \<rightharpoonup> int) \<Rightarrow> order_item list \<Rightarrow> error + (string \<rightharpoonup> int)" where
  "write_off live_stock [] = Inr live_stock"
| "write_off live_stock (item # order_items) =
     (case live_stock (item_SKU item) of
        None \<Rightarrow> Inl (KeyError (item_SKU item))
      | Some v \<Rightarrow> write_off (live_stock(item_SKU item \<mapsto> v - item_Quantity item)) order_items)"

text \<open>\<open>orders_with_counts[orders_with_counts["Order_Number"] == order_number]\<close>.\<close>

definition order_items_of :: "(order_item \<times> string \<times> nat) list \<Rightarrow> string \<Rightarrow> order_item list" where
  "order_items_of owc order_number = map fst (filter (\<lambda>(i, n, c). n = order_number) owc)"

text \<open>One pass of the loop over the prioritized orders, for the order \<open>order_number\<close>.\<close>

definition allocate_order ::
  "(order_item \<times> string \<times> nat) list \<Rightarrow> string \<Rightarrow> (string \<rightharpoonup> int) \<times> (string \<rightharpoonup> string)
     \<Rightarrow> error + ((string \<rightharpoonup> int) \<times> (string \<rightharpoonup> string))" where
  "allocate_order owc order_number state =
     (case state of (live_stock, fulfillment_results) \<Rightarrow>
        (let order_items = order_items_of owc order_number in
         if can_fulfill_order live_stock order_items then
           (case write_off live_stock order_items of
              Inl e \<Rightarrow> Inl e
            | Inr live_stock' \<Rightarrow>
                Inr (live_stock', fulfillment_results(order_number \<mapsto> ''Fulfillable'')))
         else Inr (live_stock, fulfillment_results(order_number \<mapsto> ''Not Fulfillable''))))"

fun simulate ::
  "(order_item \<times> string \<times> nat) list \<Rightarrow> string list \<Rightarrow> (string \<rightharpoonup> int) \<times> (string \<rightharpoonup> string)
     \<Rightarrow> error + ((string \<rightharpoonup> int) \<times> (string \<rightharpoonup> string))" where
  "simulate owc [] state = Inr state"
| "simulate owc (order_number # rest) state =
     (case allocate_order owc order_number state of
        Inl e \<Rightarrow> Inl e
      | Inr state' \<Rightarrow> simulate owc rest state')"

subsection \<open>\<open>run_analysis\<close>: the analysis table\<close>

text \<open>
  One row of \<open>final_df\<close>, in the order of the source: the left merge with the stock table,
  the merge with the order counts, the left merge with the final stock levels, then the
  columns computed from them. \<open>Final_Stock\<close> is filled from the column \<open>Stock\<close> as it is at
  that line, before the missing values of \<open>Stock\<close> are themselves filled with 0.
\<close>

definition final_row ::
  "stock_item list \<Rightarrow> (string \<rightharpoonup> int) \<Rightarrow> (string \<rightharpoonup> string) \<Rightarrow> string list
     \<Rightarrow> order_item \<times> string \<times> nat \<Rightarrow> analysis_row" where
  "final_row stock live_stock fulfillment_results history x =
     (case x of (i, order_number, item_count) \<Rightarrow>
        (let merged_stock = find (\<lambda>s. stock_SKU s = item_SKU i) stock;
             merged_Product_Name = (case merged_stock of None \<Rightarrow> None | Some s \<Rightarrow> stock_Product_Name s);
             merged_Stock = map_option stock_Stock merged_stock;
             merged_Final_Stock = live_stock (item_SKU i);
             filled_Final_Stock =
               (case merged_Final_Stock of None \<Rightarrow> merged_Stock | Some f \<Rightarrow> Some f);
             provider = generalize_shipping_method (item_Shipping_Method i)
         in \<lparr>Order_Number = Some order_number,
             Order_Type = Some (if item_count > 1 then ''Multi'' else ''Single''),
             SKU = item_SKU i,
             Product_Name = merged_Product_Name,
             Quantity = item_Quantity i,
             Total_Price = item_Total_Price i,
             Stock = (case merged_Stock of None \<Rightarrow> 0 | Some s \<Rightarrow> s),
             Final_Stock = filled_Final_Stock,
             Stock_Alert = Some '''',
             Order_Fulfillment_Status = fulfillment_results order_number,
             Shipping_Provider = Some provider,
             Destination_Country =
               (if provider = ''DHL'' then item_Shipping_Country i else Some ''''),
             Shipping_Method = item_Shipping_Method i,
             Tags = item_Tags i,
             Notes = item_Notes i,
             System_note = Some (if order_number \<in> set history then ''Repeat'' else ''''),
             Status_Note = Some ''''\<rparr>))"

subsection \<open>\<open>run_analysis\<close>: summary reports\<close>

record summary_row =
  summary_Name :: string
  summary_SKU :: string
  Total_Quantity :: int

text \<open>
  \<open>groupby(["SKU", "Product_Name"], as_index=False)["Quantity"].sum()\<close> on rows given as
  SKU, product name and quantity; the groups come in the order of their keys.
\<close>

definition summary_groups :: "(string \<times> string \<times> int) list \<Rightarrow> summary_row list" where
  "summary_groups rows =
     map (\<lambda>(sku, name).
            \<lparr>summary_Name = name, summary_SKU = sku,
             Total_Quantity = sum_list (map (\<lambda>(s, n, q). q) (filter (\<lambda>(s, n, q). s = sku \<and> n = name) rows))\<rparr>)
       (sort (remdups (map (\<lambda>(s, n, q). (s, n)) rows)))"

text \<open>A row whose product name is missing is in no group of the summary of present items.\<close>

definition summary_present :: "analysis_row list \<Rightarrow> summary_row list" where
  "summary_present final_df =
     summary_groups
       (concat (map (\<lambda>r. case Product_Name r of None \<Rightarrow> [] | Some n \<Rightarrow> [(SKU r, n, Quantity r)])
                 (filter (\<lambda>r. Order_Fulfillment_Status r = Some ''Fulfillable'') final_df)))"

definition summary_missing :: "analysis_row list \<Rightarrow> summary_row list" where
  "summary_missing final_df =
     (let not_fulfilled_df = filter (\<lambda>r. Order_Fulfillment_Status r = Some ''Not Fulfillable'') final_df;
          truly_missing_df = filter (\<lambda>r. Quantity r > Stock r) not_fulfilled_df
      in summary_groups
           (map (\<lambda>r. (SKU r, (case Product_Name r of None \<Rightarrow> ''N/A'' | Some n \<Rightarrow> n), Quantity r))
              truly_missing_df))"

subsection \<open>\<open>recalculate_statistics\<close>\<close>

record courier_data =
  courier_id :: string
  orders_assigned :: nat
  repeated_orders_found :: nat

record statistics =
  total_orders_completed :: nat
  total_orders_not_completed :: nat
  total_items_to_write_off :: int
  total_items_not_to_write_off :: int
  couriers_stats :: "courier_data list option"

text \<open>\<open>nunique\<close> of the column \<open>Order_Number\<close>: the number of distinct values that are not missing.\<close>

definition nunique_orders :: "analysis_row list \<Rightarrow> nat" where
  "nunique_orders df =
     length (remdups (concat (map (\<lambda>r. case Order_Number r of None \<Rightarrow> [] | Some n \<Rightarrow> [n]) df)))"

definition provider_filled :: "analysis_row \<Rightarrow> string" where
  "provider_filled r = (case Shipping_Provider r of None \<Rightarrow> ''Unknown'' | Some p \<Rightarrow> p)"

definition recalculate_statistics :: "analysis_row list \<Rightarrow> statistics" where
  "recalculate_statistics df =
     (let completed_orders_df = filter (\<lambda>r. Order_Fulfillment_Status r = Some ''Fulfillable'') df;
          not_completed_orders_df = filter (\<lambda>r. Order_Fulfillment_Status r = Some ''Not Fulfillable'') df;
          courier_stats =
            map (\<lambda>provider.
                   (let group = filter (\<lambda>r. provider_filled r = provider) completed_orders_df
                    in \<lparr>courier_id = provider,
                        orders_assigned = nunique_orders group,
                        repeated_orders_found =
                          nunique_orders (filter (\<lambda>r. System_note r = Some ''Repeat'') group)\<rparr>))
              (sort (remdups (map provider_filled completed_orders_df)))
      in \<lparr>total_orders_completed = nunique_orders completed_orders_df,
          total_orders_not_completed = nunique_orders not_completed_orders_df,
          total_items_to_write_off = sum_list (map Quantity completed_orders_df),
          total_items_not_to_write_off = sum_list (map Quantity not_completed_orders_df),
          couriers_stats = (if courier_stats = [] then None else Some courier_stats)\<rparr>)"

subsection \<open>\<open>run_analysis\<close>\<close>

definition run_analysis ::
  "stock_line list \<Rightarrow> order_line list \<Rightarrow> string list
     \<Rightarrow> error + (analysis_row list \<times> summary_row list \<times> summary_row list \<times> statistics)" where
  "run_analysis stock_df orders_df history_df =
     (let orders_clean_df = orders_clean orders_df;
          stock_clean_df = stock_clean stock_df;
          owc = orders_with_counts orders_clean_df
      in case simulate owc (map fst (prioritized_orders owc))
                (live_stock_init stock_clean_df, Map.empty) of
           Inl e \<Rightarrow> Inl e
         | Inr (live_stock, fulfillment_results) \<Rightarrow>
             (let final_df = map (final_row stock_clean_df live_stock fulfillment_results history_df) owc
              in Inr (final_df, summary_present final_df, summary_missing final_df,
                      recalculate_statistics final_df)))"

subsection \<open>\<open>toggle_order_fulfillment\<close>\<close>

text \<open>
  \<open>groupby("SKU")["Quantity"].sum()\<close> on the rows of an order: the SKUs of the order in
  ascending order, each with the sum of its quantities.
\<close>

definition quantity_by_sku :: "analysis_row list \<Rightarrow> (string \<times> int) list" where
  "quantity_by_sku order_items =
     map (\<lambda>sku. (sku, sum_list (map Quantity (filter (\<lambda>r. SKU r = sku) order_items))))
       (sort (remdups (map SKU order_items)))"

text \<open>
  \<open>df.loc[df["SKU"] == sku, "Final_Stock"] += quantity\<close>; a missing \<open>Final_Stock\<close> stays
  missing.
\<close>

definition add_final_stock :: "string \<Rightarrow> int \<Rightarrow> analysis_row list \<Rightarrow> analysis_row list" where
  "add_final_stock sku quantity df =
     map (\<lambda>r. if SKU r = sku then r\<lparr>Final_Stock := map_option (\<lambda>f. f + quantity) (Final_Stock r)\<rparr>
               else r) df"

text \<open>
  The pre-flight check: an SKU in no row of the table is passed over; otherwise
  \<open>current_stock\<close> is the \<open>Final_Stock\<close> of the first row with the SKU, and a comparison with a
  missing value is false.
\<close>

definition lacking_skus :: "analysis_row list \<Rightarrow> (string \<times> int) list \<Rightarrow> string list" where
  "lacking_skus df items_needed =
     map fst (filter (\<lambda>(sku, needed_qty).
                        case filter (\<lambda>r. SKU r = sku) df of
                          [] \<Rightarrow> False
                        | first # _ \<Rightarrow> (case Final_Stock first of
                                         None \<Rightarrow> False
                                       | Some current_stock \<Rightarrow> needed_qty > current_stock))
                items_needed)"

text \<open>
  The row added for an SKU in no row of the table: every column missing but \<open>SKU\<close>,
  \<open>Quantity\<close>, \<open>Stock\<close> and \<open>Final_Stock\<close>.
\<close>

definition new_row :: "string \<Rightarrow> analysis_row" where
  "new_row sku =
     \<lparr>Order_Number = None, Order_Type = None, SKU = sku, Product_Name = None, Quantity = 0,
      Total_Price = None, Stock = 0, Final_Stock = Some 0, Stock_Alert = None,
      Order_Fulfillment_Status = None, Shipping_Provider = None, Destination_Country = None,
      Shipping_Method = None, Tags = None, Notes = None, System_note = None,
      Status_Note = None\<rparr>"

definition deduct_stock :: "string \<times> int \<Rightarrow> analysis_row list \<Rightarrow> analysis_row list" where
  "deduct_stock x df =
     (case x of (sku, needed_qty) \<Rightarrow>
        add_final_stock sku (- needed_qty)
          (if sku \<notin> set (map SKU df) then df @ [new_row sku] else df))"

definition set_status :: "string \<Rightarrow> string \<Rightarrow> analysis_row list \<Rightarrow> analysis_row list" where
  "set_status order_number new_status df =
     map (\<lambda>r. if Order_Number r = Some order_number
               then r\<lparr>Order_Fulfillment_Status := Some new_status\<rparr> else r) df"

text \<open>
  The result is \<open>(success, error_message, updated_df)\<close>. The table given may be \<open>None\<close>. The
  order is in the table exactly when \<open>df.loc[df["Order_Number"] == order_number]\<close> has
  rows, and \<open>current_status\<close> is the status of the first of them.
\<close>

text \<open>The f-string of the error message.\<close>

definition insufficient_stock_message :: "string list \<Rightarrow> string" where
  "insufficient_stock_message lacking =
     ''Cannot force fulfill. Insufficient stock for SKUs: '' @ join '', '' lacking"

definition order_rows :: "analysis_row list \<Rightarrow> string \<Rightarrow> analysis_row list" where
  "order_rows df order_number = filter (\<lambda>r. Order_Number r = Some order_number) df"

definition toggle_order_fulfillment ::
  "analysis_row list option \<Rightarrow> string \<Rightarrow> bool \<times> string option \<times> analysis_row list option" where
  "toggle_order_fulfillment df_opt order_number =
     (case df_opt of
        None \<Rightarrow> (False, Some ''Order number not found.'', None)
      | Some df \<Rightarrow>
          (case order_rows df order_number of
             [] \<Rightarrow> (False, Some ''Order number not found.'', Some df)
           | first # others \<Rightarrow>
               (let order_items = first # others in
                if Order_Fulfillment_Status first = Some ''Fulfillable'' then
                  (let stock_to_return = quantity_by_sku order_items;
                       df1 = fold (\<lambda>(sku, quantity). add_final_stock sku quantity) stock_to_return df
                   in (True, None, Some (set_status order_number ''Not Fulfillable'' df1)))
                else
                  (let items_needed = quantity_by_sku order_items;
                       lacking = lacking_skus df items_needed
                   in if lacking \<noteq> [] then
                        (False, Some (insufficient_stock_message lacking), Some df)
                      else
                        (let df1 = fold deduct_stock items_needed df
                         in (True, None, Some (set_status order_number ''Fulfillable'' df1)))))))"

section \<open>rules.py\<close>

subsection \<open>Cells and tables\<close>

text \<open>
  The rule engine reads and writes columns by name, so here a table has a list of column
  names and rows that give a cell for every name, the cell of a name that is not a column
  being \<open>Null\<close>. A cell holds a missing value, a text, a number or a truth value. Numbers
  are integers: a numeral with a fraction or an exponent is outside the model.
\<close>

datatype cell = Null | Str string | Num int | Flag bool

record dataframe =
  columns :: "string list"
  rows :: "(string \<Rightarrow> cell) list"

text \<open>\<open>df[field]\<close>, the column as a series.\<close>

definition column :: "dataframe \<Rightarrow> string \<Rightarrow> cell list" where
  "column df field = map (\<lambda>r. r field) (rows df)"

text \<open>
  \<open>df.loc[matches, field] = f(row)\<close>: the rows where \<open>matches\<close> holds get a new cell. The
  assignment makes the column when the table has none of that name.
\<close>

definition loc_set :: "dataframe \<Rightarrow> bool list \<Rightarrow> string \<Rightarrow> ((string \<Rightarrow> cell) \<Rightarrow> cell) \<Rightarrow> dataframe" where
  "loc_set df matches field f =
     \<lparr>columns = (if field \<in> set (columns df) then columns df else columns df @ [field]),
      rows = map2 (\<lambda>m r. if m then r(field := f r) else r) matches (rows df)\<rparr>"

text \<open>\<open>df[field] = v\<close>: the whole column.\<close>

definition set_column :: "dataframe \<Rightarrow> string \<Rightarrow> cell \<Rightarrow> dataframe" where
  "set_column df field v =
     \<lparr>columns = (if field \<in> set (columns df) then columns df else columns df @ [field]),
      rows = map (\<lambda>r. r(field := v)) (rows df)\<rparr>"

subsection \<open>Python values\<close>

fun string_of_nat :: "nat \<Rightarrow> string" where
  "string_of_nat n =
     (if n < 10 then [char_of (48 + n)]
      else string_of_nat (n div 10) @ [char_of (48 + n mod 10)])"

text \<open>\<open>str(v)\<close>, as an f-string formats a value.\<close>

definition py_str :: "cell \<Rightarrow> string" where
  "py_str v =
     (case v of
        Null \<Rightarrow> ''None''
      | Str s \<Rightarrow> s
      | Num n \<Rightarrow> (if n < 0 then CHR ''-'' # string_of_nat (nat (- n)) else string_of_nat (nat n))
      | Flag b \<Rightarrow> (if b then ''True'' else ''False''))"

definition is_digit :: "char \<Rightarrow> bool" where
  "is_digit c = (CHR ''0'' \<le> c \<and> c \<le> CHR ''9'')"

definition nat_of_digits :: "string \<Rightarrow> nat" where
  "nat_of_digits s = foldl (\<lambda>n c. 10 * n + (of_char c - 48)) 0 s"

text \<open>The integer a text denotes: digits with an optional sign.\<close>

definition parse_int :: "string \<Rightarrow> int option" where
  "parse_int s =
     (case s of
        [] \<Rightarrow> None
      | c # cs \<Rightarrow>
          if (c = CHR ''-'' \<or> c = CHR ''+'') \<and> cs \<noteq> [] \<and> list_all is_digit cs
          then Some (if c = CHR ''-'' then - int (nat_of_digits cs) else int (nat_of_digits cs))
          else if list_all is_digit (c # cs) then Some (int (nat_of_digits (c # cs)))
          else None)"

text \<open>\<open>float(rule_val)\<close>: a text that is no number raises \<open>ValueError\<close>, \<open>None\<close> raises \<open>TypeError\<close>.\<close>

definition py_float :: "cell \<Rightarrow> error + int" where
  "py_float v =
     (case v of
        Null \<Rightarrow> Inl TypeError
      | Str s \<Rightarrow> (case parse_int s of None \<Rightarrow> Inl ValueError | Some n \<Rightarrow> Inr n)
      | Num n \<Rightarrow> Inr n
      | Flag b \<Rightarrow> Inr (if b then 1 else 0))"

text \<open>\<open>pd.to_numeric(series, errors="coerce")\<close> on one cell; \<open>None\<close> is NaN.\<close>

definition to_numeric :: "cell \<Rightarrow> int option" where
  "to_numeric x =
     (case x of
        Null \<Rightarrow> None
      | Str s \<Rightarrow> parse_int s
      | Num n \<Rightarrow> Some n
      | Flag b \<Rightarrow> Some (if b then 1 else 0))"

text \<open>
  \<open>==\<close> on cells: a missing value equals nothing, a truth value is the number 0 or 1, a
  text equals no number.
\<close>

definition cell_eq :: "cell \<Rightarrow> cell \<Rightarrow> bool" where
  "cell_eq x v =
     (case (x, v) of
        (Str a, Str b) \<Rightarrow> a = b
      | (Null, _) \<Rightarrow> False
      | (_, Null) \<Rightarrow> False
      | (Str a, _) \<Rightarrow> False
      | (_, Str b) \<Rightarrow> False
      | _ \<Rightarrow> to_numeric x = to_numeric v)"

subsection \<open>Operator implementations\<close>

text \<open>
  Each operator takes the series of a column and the value of the rule and gives the
  series of truth values, or raises. The methods of \<open>.str\<close> give the \<open>na\<close> value, false, on
  a cell that is no text, and raise \<open>TypeError\<close> on a pattern that is no text. The pattern
  of \<open>contains\<close> is read literally.
\<close>

definition op_equals :: "cell list \<Rightarrow> cell \<Rightarrow> error + bool list" where
  "op_equals series_val rule_val = Inr (map (\<lambda>x. cell_eq x rule_val) series_val)"

definition op_not_equals :: "cell list \<Rightarrow> cell \<Rightarrow> error + bool list" where
  "op_not_equals series_val rule_val = Inr (map (\<lambda>x. \<not> cell_eq x rule_val) series_val)"

definition str_contains :: "cell list \<Rightarrow> cell \<Rightarrow> error + bool list" where
  "str_contains series_val rule_val =
     (case rule_val of
        Str pat \<Rightarrow>
          Inr (map (\<lambda>x. case x of Str s \<Rightarrow> contains (lower pat) (lower s) | _ \<Rightarrow> False) series_val)
      | _ \<Rightarrow> Inl TypeError)"

definition op_contains :: "cell list \<Rightarrow> cell \<Rightarrow> error + bool list" where
  "op_contains series_val rule_val = str_contains series_val rule_val"

definition op_not_contains :: "cell list \<Rightarrow> cell \<Rightarrow> error + bool list" where
  "op_not_contains series_val rule_val =
     (case str_contains series_val rule_val of
        Inl e \<Rightarrow> Inl e
      | Inr bs \<Rightarrow> Inr (map Not bs))"

definition op_greater_than :: "cell list \<Rightarrow> cell \<Rightarrow> error + bool list" where
  "op_greater_than series_val rule_val =
     (case py_float rule_val of
        Inl e \<Rightarrow> Inl e
      | Inr v \<Rightarrow> Inr (map (\<lambda>x. case to_numeric x of None \<Rightarrow> False | Some n \<Rightarrow> n > v) series_val))"

definition op_less_than :: "cell list \<Rightarrow> cell \<Rightarrow> error + bool list" where
  "op_less_than series_val rule_val =
     (case py_float rule_val of
        Inl e \<Rightarrow> Inl e
      | Inr v \<Rightarrow> Inr (map (\<lambda>x. case to_numeric x of None \<Rightarrow> False | Some n \<Rightarrow> n < v) series_val))"

definition op_starts_with :: "cell list \<Rightarrow> cell \<Rightarrow> error + bool list" where
  "op_starts_with series_val rule_val =
     (case rule_val of
        Str pat \<Rightarrow> Inr (map (\<lambda>x. case x of Str s \<Rightarrow> startswith pat s | _ \<Rightarrow> False) series_val)
      | _ \<Rightarrow> Inl TypeError)"

definition op_ends_with :: "cell list \<Rightarrow> cell \<Rightarrow> error + bool list" where
  "op_ends_with series_val rule_val =
     (case rule_val of
        Str pat \<Rightarrow>
          Inr (map (\<lambda>x. case x of Str s \<Rightarrow> startswith (rev pat) (rev s) | _ \<Rightarrow> False) series_val)
      | _ \<Rightarrow> Inl TypeError)"

definition op_is_empty :: "cell list \<Rightarrow> cell \<Rightarrow> error + bool list" where
  "op_is_empty series_val rule_val =
     Inr (map (\<lambda>x. x = Null \<or> cell_eq x (Str [])) series_val)"

definition op_is_not_empty :: "cell list \<Rightarrow> cell \<Rightarrow> error + bool list" where
  "op_is_not_empty series_val rule_val =
     Inr (map (\<lambda>x. x \<noteq> Null \<and> \<not> cell_eq x (Str [])) series_val)"

definition OPERATOR_MAP :: "(string \<times> string) list" where
  "OPERATOR_MAP =
     [(''equals'', ''_op_equals''),
      (''does not equal'', ''_op_not_equals''),
      (''contains'', ''_op_contains''),
      (''does not contain'', ''_op_not_contains''),
      (''is greater than'', ''_op_greater_than''),
      (''is less than'', ''_op_less_than''),
      (''starts with'', ''_op_starts_with''),
      (''ends with'', ''_op_ends_with''),
      (''is empty'', ''_op_is_empty''),
      (''is not empty'', ''_op_is_not_empty'')]"

text \<open>\<open>globals()[op_func_name]\<close>; a name that is not bound raises \<open>KeyError\<close>.\<close>

definition globals_op :: "string \<Rightarrow> cell list \<Rightarrow> cell \<Rightarrow> error + bool list" where
  "globals_op op_func_name =
     (if op_func_name = ''_op_equals'' then op_equals
      else if op_func_name = ''_op_not_equals'' then op_not_equals
      else if op_func_name = ''_op_contains'' then op_contains
      else if op_func_name = ''_op_not_contains'' then op_not_contains
      else if op_func_name = ''_op_greater_than'' then op_greater_than
      else if op_func_name = ''_op_less_than'' then op_less_than
      else if op_func_name = ''_op_starts_with'' then op_starts_with
      else if op_func_name = ''_op_ends_with'' then op_ends_with
      else if op_func_name = ''_op_is_empty'' then op_is_empty
      else if op_func_name = ''_op_is_not_empty'' then op_is_not_empty
      else (\<lambda>series_val rule_val. Inl (KeyError op_func_name)))"

subsection \<open>Rules\<close>

text \<open>
  A rule is a dictionary; \<open>get\<close> gives \<open>None\<close> for a key it does not have, and the defaults
  of \<open>rule.get("match", "ALL")\<close> and \<open>action.get("type", "")\<close> stand in the records.
\<close>

record condition =
  cond_field :: "string option"
  cond_operator :: "string option"
  cond_value :: cell

record action =
  action_type :: string
  action_value :: cell

record rule =
  rule_match :: string
  rule_conditions :: "condition list"
  rule_actions :: "action list"

subsection \<open>\<open>RuleEngine._prepare_df_for_actions\<close>\<close>

definition needed_columns :: "rule list \<Rightarrow> string list" where
  "needed_columns rules =
     concat (map (\<lambda>rule.
       concat (map (\<lambda>action.
         (let t = upper (action_type action) in
          if t = ''SET_PRIORITY'' then [''Priority'']
          else if t = ''EXCLUDE_FROM_REPORT'' then [''_is_excluded'']
          else if t = ''EXCLUDE_SKU'' then [''Status_Note'']
          else if t = ''ADD_TAG'' then [''Status_Note'']
          else [])) (rule_actions rule))) rules)"

definition add_if_needed :: "string list \<Rightarrow> string \<Rightarrow> cell \<Rightarrow> dataframe \<Rightarrow> dataframe" where
  "add_if_needed needed name v df =
     (if name \<in> set needed \<and> name \<notin> set (columns df) then set_column df name v else df)"

definition prepare_df_for_actions :: "rule list \<Rightarrow> dataframe \<Rightarrow> dataframe" where
  "prepare_df_for_actions rules df =
     (let needed = needed_columns rules
      in add_if_needed needed ''Status_Note'' (Str [])
           (add_if_needed needed ''_is_excluded'' (Flag False)
             (add_if_needed needed ''Priority'' (Str ''Normal'') df)))"

subsection \<open>\<open>RuleEngine._get_matching_rows\<close>\<close>

text \<open>
  The test \<open>all([field, operator, field in df.columns, operator in OPERATOR_MAP])\<close>: a
  field or operator that is \<open>None\<close> or the empty text is false.
\<close>

definition usable :: "dataframe \<Rightarrow> condition \<Rightarrow> bool" where
  "usable df cond =
     (case (cond_field cond, cond_operator cond) of
        (Some field, Some operator) \<Rightarrow>
          field \<noteq> [] \<and> operator \<noteq> [] \<and> field \<in> set (columns df)
          \<and> operator \<in> set (map fst OPERATOR_MAP)
      | _ \<Rightarrow> False)"

text \<open>The loop over the conditions; it stops at the first operator that raises.\<close>

fun condition_results :: "dataframe \<Rightarrow> condition list \<Rightarrow> error + bool list list" where
  "condition_results df [] = Inr []"
| "condition_results df (cond # conds) =
     (if \<not> usable df cond then condition_results df conds
      else
        (case (cond_field cond, cond_operator cond) of
           (Some field, Some operator) \<Rightarrow>
             (case map_of OPERATOR_MAP operator of
                None \<Rightarrow> Inl (KeyError operator)
              | Some op_func_name \<Rightarrow>
                  (case globals_op op_func_name (column df field) (cond_value cond) of
                     Inl e \<Rightarrow> Inl e
                   | Inr res \<Rightarrow>
                       (case condition_results df conds of
                          Inl e \<Rightarrow> Inl e
                        | Inr results \<Rightarrow> Inr (res # results))))
         | _ \<Rightarrow> condition_results df conds))"

text \<open>\<open>pd.concat(condition_results, axis=1)\<close> with \<open>.all(axis=1)\<close> and \<open>.any(axis=1)\<close>.\<close>

definition all_axis1 :: "nat \<Rightarrow> bool list list \<Rightarrow> bool list" where
  "all_axis1 n results = map (\<lambda>i. list_all (\<lambda>res. res ! i) results) [0..<n]"

definition any_axis1 :: "nat \<Rightarrow> bool list list \<Rightarrow> bool list" where
  "any_axis1 n results = map (\<lambda>i. list_ex (\<lambda>res. res ! i) results) [0..<n]"

definition get_matching_rows :: "dataframe \<Rightarrow> rule \<Rightarrow> error + bool list" where
  "get_matching_rows df rule =
     (let match_type = upper (rule_match rule);
          conditions = rule_conditions rule
      in if conditions = [] then Inr (replicate (length (rows df)) False)
         else
           (case condition_results df conditions of
              Inl e \<Rightarrow> Inl e
            | Inr results \<Rightarrow>
                if results = [] then Inr (replicate (length (rows df)) False)
                else if match_type = ''ALL'' then Inr (all_axis1 (length (rows df)) results)
                else Inr (any_axis1 (length (rows df)) results)))"

subsection \<open>\<open>RuleEngine._execute_actions\<close>\<close>

text \<open>\<open>fillna("").astype(str)\<close> on a note.\<close>

definition note_text :: "cell \<Rightarrow> string" where
  "note_text x = (case x of Null \<Rightarrow> [] | _ \<Rightarrow> py_str x)"

text \<open>
  The inner function \<open>append_note\<close>. The value of the action is in the list of texts
  \<open>note.split(", ")\<close> only when it is a text; with an empty note the result is the value as
  it is.
\<close>

definition append_note :: "cell \<Rightarrow> string \<Rightarrow> cell" where
  "append_note v note =
     (if (case v of Str s \<Rightarrow> s \<in> set (split_comma_space note) | _ \<Rightarrow> False) then Str note
      else if note \<noteq> [] then Str (note @ '', '' @ py_str v)
      else v)"

text \<open>
  \<open>df.loc[final_matches, "Status_Note"] + " SKU_EXCLUDED"\<close>: a missing note stays missing,
  and a note that is no text raises \<open>TypeError\<close>.
\<close>

definition add_marker :: "cell \<Rightarrow> error + cell" where
  "add_marker x =
     (case x of
        Null \<Rightarrow> Inr Null
      | Str s \<Rightarrow> Inr (Str (s @ '' SKU_EXCLUDED''))
      | _ \<Rightarrow> Inl TypeError)"

definition execute_action :: "bool list \<Rightarrow> action \<Rightarrow> dataframe \<Rightarrow> error + dataframe" where
  "execute_action matches action df =
     (let t = upper (action_type action);
          v = action_value action
      in if t = ''ADD_TAG'' then
           Inr (loc_set df matches ''Status_Note'' (\<lambda>r. append_note v (note_text (r ''Status_Note''))))
         else if t = ''SET_STATUS'' then
           Inr (loc_set df matches ''Order_Fulfillment_Status'' (\<lambda>r. v))
         else if t = ''SET_PRIORITY'' then
           Inr (loc_set df matches ''Priority'' (\<lambda>r. v))
         else if t = ''EXCLUDE_FROM_REPORT'' then
           Inr (loc_set df matches ''_is_excluded'' (\<lambda>r. Flag True))
         else if t = ''EXCLUDE_SKU'' then
           (if ''SKU'' \<in> set (columns df) \<and> ''Quantity'' \<in> set (columns df) then
              (let sku_matches = map (\<lambda>x. cell_eq x v) (column df ''SKU'');
                   final_matches = map2 (\<and>) matches sku_matches;
                   df1 = loc_set df final_matches ''Quantity'' (\<lambda>r. Num 0)
               in if list_ex (\<lambda>(m, r). m \<and> add_marker (r ''Status_Note'') = Inl TypeError)
                       (zip final_matches (rows df1))
                  then Inl TypeError
                  else Inr (loc_set df1 final_matches ''Status_Note''
                              (\<lambda>r. case add_marker (r ''Status_Note'') of Inr c \<Rightarrow> c | Inl e \<Rightarrow> Null)))
            else Inr df)
         else Inr df)"

fun execute_actions :: "dataframe \<Rightarrow> bool list \<Rightarrow> action list \<Rightarrow> error + dataframe" where
  "execute_actions df matches [] = Inr df"
| "execute_actions df matches (action # actions) =
     (case execute_action matches action df of
        Inl e \<Rightarrow> Inl e
      | Inr df' \<Rightarrow> execute_actions df' matches actions)"

subsection \<open>\<open>RuleEngine.apply\<close>\<close>

fun apply_rules :: "rule list \<Rightarrow> dataframe \<Rightarrow> error + dataframe" where
  "apply_rules [] df = Inr df"
| "apply_rules (rule # rules) df =
     (case get_matching_rows df rule of
        Inl e \<Rightarrow> Inl e
      | Inr matches \<Rightarrow>
          if list_ex (\<lambda>m. m) matches then
            (case execute_actions df matches (rule_actions rule) of
               Inl e \<Rightarrow> Inl e
             | Inr df' \<Rightarrow> apply_rules rules df')
          else apply_rules rules df)"

definition RuleEngine_apply :: "rule list \<Rightarrow> dataframe \<Rightarrow> error + dataframe" where
  "RuleEngine_apply rules df =
     (if rules = [] then Inr df
      else apply_rules rules (prepare_df_for_actions rules df))"

section \<open>Notions used in the statements\<close>

text \<open>
  Two rows that agree in every column but \<open>Final_Stock\<close> and
  \<open>Order_Fulfillment_Status\<close>.
\<close>

definition only_stock_and_status_differ :: "analysis_row \<Rightarrow> analysis_row \<Rightarrow> bool" where
  "only_stock_and_status_differ r r' =
     (r' = r\<lparr>Final_Stock := Final_Stock r',
            Order_Fulfillment_Status := Order_Fulfillment_Status r'\<rparr>)"

text \<open>The quantity of an SKU that the lines of an order ask for.\<close>

definition sku_quantity :: "order_item list \<Rightarrow> string \<Rightarrow> int" where
  "sku_quantity order_items sku =
     sum_list (map item_Quantity (filter (\<lambda>i. item_SKU i = sku) order_items))"

text \<open>A small analysis table: two orders that share the SKU \<open>SKU-A\<close>.\<close>

definition example_row :: "string \<Rightarrow> string \<Rightarrow> int \<Rightarrow> int option \<Rightarrow> string \<Rightarrow> analysis_row" where
  "example_row order_number sku quantity final_stock status =
     \<lparr>Order_Number = Some order_number, Order_Type = None, SKU = sku, Product_Name = None,
      Quantity = quantity, Total_Price = None, Stock = 10, Final_Stock = final_stock,
      Stock_Alert = Some [], Order_Fulfillment_Status = Some status,
      Shipping_Provider = None, Destination_Country = None, Shipping_Method = None,
      Tags = None, Notes = None, System_note = Some [], Status_Note = Some []\<rparr>"

definition example_df :: "analysis_row list" where
  "example_df =
     [example_row ''1001'' ''SKU-A'' 1 (Some 2) ''Fulfillable'',
      example_row ''1001'' ''SKU-B'' 2 (Some 8) ''Fulfillable'',
      example_row ''1002'' ''SKU-A'' 3 (Some 2) ''Not Fulfillable'']"

definition example_df_unfulfilled :: "analysis_row list" where
  "example_df_unfulfilled =
     [example_row ''1001'' ''SKU-A'' 1 (Some 3) ''Not Fulfillable'',
      example_row ''1001'' ''SKU-B'' 2 (Some 10) ''Not Fulfillable'',
      example_row ''1002'' ''SKU-A'' 3 (Some 3) ''Not Fulfillable'']"


text \<open>A small table for the rule engine, with conditions, actions and rules on it.\<close>

definition example_table :: dataframe where
  "example_table =
     \<lparr>columns = [''SKU'', ''Status_Note''],
      rows = [(\<lambda>c. Null)(''SKU'' := Str ''A'', ''Status_Note'' := Str [])]\<rparr>"

definition cond_sku :: condition where
  "cond_sku = \<lparr>cond_field = Some ''SKU'', cond_operator = Some ''equals'', cond_value = Str ''A''\<rparr>"

definition cond_absent :: condition where
  "cond_absent = \<lparr>cond_field = Some ''Colour'', cond_operator = Some ''equals'', cond_value = Str ''red''\<rparr>"

definition cond_priority :: condition where
  "cond_priority = \<lparr>cond_field = Some ''Priority'', cond_operator = Some ''equals'', cond_value = Str ''Normal''\<rparr>"

definition set_priority_high :: action where
  "set_priority_high = \<lparr>action_type = ''SET_PRIORITY'', action_value = Str ''High''\<rparr>"

definition rule_all :: rule where
  "rule_all = \<lparr>rule_match = ''ALL'', rule_conditions = [cond_sku, cond_absent], rule_actions = [set_priority_high]\<rparr>"

definition rule_priority :: rule where
  "rule_priority = \<lparr>rule_match = ''ALL'', rule_conditions = [cond_priority], rule_actions = [set_priority_high]\<rparr>"

definition rule_unusable :: rule where
  "rule_unusable = \<lparr>rule_match = ''ALL'', rule_conditions = [cond_absent], rule_actions = [set_priority_high]\<rparr>"

definition rule_tag_list :: rule where
  "rule_tag_list = \<lparr>rule_match = ''ANY'', rule_conditions = [cond_sku],
               rule_actions = [\<lparr>action_type = ''ADD_TAG'', action_value = Str ''a, b''\<rparr>]\<rparr>"

section \<open>Properties of \<open>toggle_order_fulfillment\<close>\<close>

lemma add_final_stock_SKU: "map SKU (add_final_stock sku q df) = map SKU df"
  by (simp add: add_final_stock_def)

lemma add_final_stock_fold:
  "fold (\<lambda>(sku, q). add_final_stock sku q) items df =
     map (\<lambda>r. r\<lparr>Final_Stock :=
                    map_option (\<lambda>f. f + sum_list (map snd (filter (\<lambda>(sku, q). sku = SKU r) items)))
                      (Final_Stock r)\<rparr>) df"
proof (induction items arbitrary: df)
  case Nil
  show ?case by (simp add: option.map_ident)
next
  case (Cons x items)
  obtain sku q where x: "x = (sku, q)" by (cases x)
  show ?case
    unfolding x
    by (simp add: Cons.IH) (auto simp: add_final_stock_def option.map_comp comp_def add.assoc)
qed

lemma deduct_fold:
  "set (map fst items) \<subseteq> set (map SKU df) \<Longrightarrow>
     fold deduct_stock items df = fold (\<lambda>(sku, q). add_final_stock sku (- q)) items df"
proof (induction items arbitrary: df)
  case Nil
  show ?case by simp
next
  case (Cons x items)
  obtain sku q where x: "x = (sku, q)" by (cases x)
  from Cons.prems have in_df: "sku \<in> set (map SKU df)" and rest: "set (map fst items) \<subseteq> set (map SKU df)"
    by (auto simp: x)
  have step: "deduct_stock x df = add_final_stock sku (- q) df"
    using in_df by (simp add: deduct_stock_def x)
  have "set (map fst items) \<subseteq> set (map SKU (add_final_stock sku (- q) df))"
    using rest by (simp only: add_final_stock_SKU)
  from Cons.IH [OF this] show ?case
    by (simp add: step) (simp add: x)
qed

lemma quantity_by_sku_keys: "set (map fst (quantity_by_sku order_items)) = set (map SKU order_items)"
  by (simp add: quantity_by_sku_def comp_def)

lemma order_rows_subset: "set (order_rows df n) \<subseteq> set df"
  by (auto simp: order_rows_def)

lemma needed_skus_in_df:
  "set (map fst (quantity_by_sku (order_rows df n))) \<subseteq> set (map SKU df)"
proof -
  have "set (map SKU (order_rows df n)) \<subseteq> set (map SKU df)"
    using order_rows_subset [of df n] by auto
  then show ?thesis by (simp only: quantity_by_sku_keys)
qed

lemma neg_items_fold:
  "fold (\<lambda>(sku, q). add_final_stock sku (- q)) items df =
   fold (\<lambda>(sku, q). add_final_stock sku q) (map (\<lambda>(sku, q). (sku, - q)) items) df"
  by (induction items arbitrary: df) auto

lemma sum_neg_items:
  "sum_list (map snd (filter (\<lambda>(sku, q). sku = s) (map (\<lambda>(sku, q). (sku, - q)) items)))
     = - sum_list (map snd (filter (\<lambda>(sku, q). sku = s) items))"
  for s :: string and items :: "(string \<times> int) list"
  by (induction items) auto

lemma deduct_all_fold:
  "fold (\<lambda>(sku, q). add_final_stock sku (- q)) items df =
     map (\<lambda>r. r\<lparr>Final_Stock :=
                    map_option (\<lambda>f. f - sum_list (map snd (filter (\<lambda>(sku, q). sku = SKU r) items)))
                      (Final_Stock r)\<rparr>) df"
  by (simp only: neg_items_fold add_final_stock_fold sum_neg_items) simp

lemma toggle_cases:
  assumes "toggle_order_fulfillment df_opt n = (ok, err, out)"
  shows "(ok = False \<and> err = Some ''Order number not found.'' \<and> out = df_opt
            \<and> (df_opt = None \<or> (\<exists>df. df_opt = Some df \<and> order_rows df n = [])))
       \<or> (\<exists>df first others. df_opt = Some df \<and> order_rows df n = first # others
            \<and> Order_Fulfillment_Status first = Some ''Fulfillable'' \<and> ok \<and> err = None
            \<and> out = Some (set_status n ''Not Fulfillable''
                    (fold (\<lambda>(sku, q). add_final_stock sku q) (quantity_by_sku (first # others)) df)))
       \<or> (\<exists>df first others. df_opt = Some df \<and> order_rows df n = first # others
            \<and> Order_Fulfillment_Status first \<noteq> Some ''Fulfillable''
            \<and> lacking_skus df (quantity_by_sku (first # others)) \<noteq> []
            \<and> ok = False \<and> out = df_opt
            \<and> err = Some (insufficient_stock_message (lacking_skus df (quantity_by_sku (first # others)))))
       \<or> (\<exists>df first others. df_opt = Some df \<and> order_rows df n = first # others
            \<and> Order_Fulfillment_Status first \<noteq> Some ''Fulfillable''
            \<and> lacking_skus df (quantity_by_sku (first # others)) = []
            \<and> ok \<and> err = None
            \<and> out = Some (set_status n ''Fulfillable''
                    (fold (\<lambda>(sku, q). add_final_stock sku (- q)) (quantity_by_sku (first # others)) df)))"
proof (cases df_opt)
  case None
  with assms show ?thesis by (simp add: toggle_order_fulfillment_def)
next
  case (Some df)
  show ?thesis
  proof (cases "order_rows df n")
    case Nil
    with assms Some show ?thesis by (auto simp: toggle_order_fulfillment_def)
  next
    case (Cons first others)
    have sub: "set (map fst (quantity_by_sku (first # others))) \<subseteq> set (map SKU df)"
      using needed_skus_in_df [of df n] by (simp only: Cons)
    show ?thesis
    proof (cases "Order_Fulfillment_Status first = Some ''Fulfillable''")
      case True
      have "toggle_order_fulfillment df_opt n =
              (True, None, Some (set_status n ''Not Fulfillable''
                 (fold (\<lambda>(sku, q). add_final_stock sku q) (quantity_by_sku (first # others)) df)))"
        by (simp add: toggle_order_fulfillment_def Some Cons True Let_def)
      with assms Some Cons True show ?thesis by simp
    next
      case False
      show ?thesis
      proof (cases "lacking_skus df (quantity_by_sku (first # others)) = []")
        case True
        have "toggle_order_fulfillment df_opt n =
                (True, None, Some (set_status n ''Fulfillable''
                   (fold deduct_stock (quantity_by_sku (first # others)) df)))"
          by (simp add: toggle_order_fulfillment_def Some Cons False True Let_def)
        with assms Some Cons False True deduct_fold [OF sub] show ?thesis by simp
      next
        case lack: False
        have "toggle_order_fulfillment df_opt n =
                (False,
                 Some (insufficient_stock_message (lacking_skus df (quantity_by_sku (first # others)))),
                 Some df)"
          by (simp add: toggle_order_fulfillment_def Some Cons False lack Let_def)
        with assms Some Cons False lack show ?thesis by simp
      qed
    qed
  qed
qed

lemma differ_refl: "only_stock_and_status_differ r r"
  by (simp add: only_stock_and_status_differ_def)

lemma differ_stock: "only_stock_and_status_differ r (r\<lparr>Final_Stock := x\<rparr>)"
  by (simp add: only_stock_and_status_differ_def)

lemma differ_status: "only_stock_and_status_differ r (r\<lparr>Order_Fulfillment_Status := x\<rparr>)"
  by (simp add: only_stock_and_status_differ_def)

lemma differ_trans:
  assumes "only_stock_and_status_differ x y" and "only_stock_and_status_differ y z"
  shows "only_stock_and_status_differ x z"
proof -
  from assms have
    a: "y = x\<lparr>Final_Stock := Final_Stock y, Order_Fulfillment_Status := Order_Fulfillment_Status y\<rparr>"
    and b: "z = y\<lparr>Final_Stock := Final_Stock z, Order_Fulfillment_Status := Order_Fulfillment_Status z\<rparr>"
    by (simp_all only: only_stock_and_status_differ_def)
  have "z = x\<lparr>Final_Stock := Final_Stock y, Order_Fulfillment_Status := Order_Fulfillment_Status y\<rparr>
             \<lparr>Final_Stock := Final_Stock z, Order_Fulfillment_Status := Order_Fulfillment_Status z\<rparr>"
    using a b by simp
  then have "z = x\<lparr>Final_Stock := Final_Stock z, Order_Fulfillment_Status := Order_Fulfillment_Status z\<rparr>"
    by simp
  then show ?thesis by (simp only: only_stock_and_status_differ_def)
qed

lemma differ_map: "(\<And>r. only_stock_and_status_differ r (g r)) \<Longrightarrow> list_all2 only_stock_and_status_differ df (map g df)"
  by (simp add: list_all2_map2 list_all2_same)

lemma differ_set_status: "list_all2 only_stock_and_status_differ df (set_status n s df)"
  unfolding set_status_def by (rule differ_map) (simp add: differ_refl differ_status)

lemma differ_list_trans:
  "list_all2 only_stock_and_status_differ a b \<Longrightarrow> list_all2 only_stock_and_status_differ b c
     \<Longrightarrow> list_all2 only_stock_and_status_differ a c"
  by (rule list_all2_trans [of only_stock_and_status_differ only_stock_and_status_differ]) (rule differ_trans)

lemma differ_fold_add:
  "list_all2 only_stock_and_status_differ df (fold (\<lambda>(sku, q). add_final_stock sku q) items df)"
  unfolding add_final_stock_fold by (rule differ_map) (rule differ_stock)

lemma differ_fold_deduct:
  "list_all2 only_stock_and_status_differ df (fold (\<lambda>(sku, q). add_final_stock sku (- q)) items df)"
  unfolding deduct_all_fold by (rule differ_map) (rule differ_stock)

lemma example_rows_1002:
  "order_rows example_df ''1002'' = [example_row ''1002'' ''SKU-A'' 3 (Some 2) ''Not Fulfillable'']"
  by (simp add: example_df_def order_rows_def example_row_def)

lemma example_rows_1001:
  "order_rows example_df ''1001'' =
     [example_row ''1001'' ''SKU-A'' 1 (Some 2) ''Fulfillable'',
      example_row ''1001'' ''SKU-B'' 2 (Some 8) ''Fulfillable'']"
  by (simp add: example_df_def order_rows_def example_row_def)

lemma example_needed_1002:
  "quantity_by_sku [example_row ''1002'' ''SKU-A'' 3 (Some 2) ''Not Fulfillable''] = [(''SKU-A'', 3)]"
  by (simp add: quantity_by_sku_def example_row_def)

lemma example_status_1002:
  "Order_Fulfillment_Status (example_row ''1002'' ''SKU-A'' 3 (Some 2) ''Not Fulfillable'') \<noteq> Some ''Fulfillable''"
  by (simp add: example_row_def)

lemma example_lacking_1002: "lacking_skus example_df [(''SKU-A'', 3)] = [''SKU-A'']"
  by (simp add: example_df_def lacking_skus_def example_row_def)

lemma example_toggle_1001:
  "toggle_order_fulfillment (Some example_df) ''1001'' = (True, None, Some example_df_unfulfilled)"
  by (simp add: toggle_order_fulfillment_def example_rows_1001 Let_def)
     (simp add: quantity_by_sku_def example_row_def example_df_def example_df_unfulfilled_def
        add_final_stock_def set_status_def)




lemma fulfill_rows:
  "set_status n s (fold (\<lambda>(sku, q). add_final_stock sku (- q)) items df) =
     map (\<lambda>r. if Order_Number r = Some n
               then r\<lparr>Final_Stock := map_option (\<lambda>f. f - sum_list (map snd (filter (\<lambda>(sku, q). sku = SKU r) items))) (Final_Stock r),
                      Order_Fulfillment_Status := Some s\<rparr>
               else r\<lparr>Final_Stock := map_option (\<lambda>f. f - sum_list (map snd (filter (\<lambda>(sku, q). sku = SKU r) items))) (Final_Stock r)\<rparr>) df"
  by (simp add: deduct_all_fold set_status_def)

















section \<open>Claims on the manual toggle\<close>

text \<open>
  Claim C3. An order that is not Fulfillable is force-fulfilled. When the pre-flight check
  finds an SKU of the order whose \<open>Final_Stock\<close>, read in the first row of the table with
  that SKU, is less than the quantity the order needs, the toggle returns
  \<open>success = False\<close>, the message names the SKUs that are short, this SKU among them, and
  the table returned is the table given, row for row and column for column.
\<close>

theorem toggle_insufficient_stock_unmodified:
  assumes "order_rows df order_number = first # others"
    and "Order_Fulfillment_Status first \<noteq> Some ''Fulfillable''"
    and "(sku, needed_qty) \<in> set (quantity_by_sku (first # others))"
    and "filter (\<lambda>r. SKU r = sku) df = tracked # rest"
    and "Final_Stock tracked = Some current_stock"
    and "current_stock < needed_qty"
  shows "sku \<in> set (lacking_skus df (quantity_by_sku (first # others)))
       \<and> toggle_order_fulfillment (Some df) order_number =
           (False,
            Some (''Cannot force fulfill. Insufficient stock for SKUs: ''
                  @ join '', '' (lacking_skus df (quantity_by_sku (first # others)))),
            Some df)"
proof -
  have short: "sku \<in> set (lacking_skus df (quantity_by_sku (first # others)))"
    using assms(3-6) by (force simp: lacking_skus_def)
  then have "lacking_skus df (quantity_by_sku (first # others)) \<noteq> []"
    by auto
  then have "toggle_order_fulfillment (Some df) order_number =
           (False,
            Some (insufficient_stock_message (lacking_skus df (quantity_by_sku (first # others)))),
            Some df)"
    using assms(1,2) by (simp add: toggle_order_fulfillment_def Let_def)
  with short show ?thesis
    by (simp only: insufficient_stock_message_def) 
qed

text \<open>
  The hypotheses of C3 hold for order 1002 of the example table, which needs 3 of
  \<open>SKU-A\<close> where 2 are left.
\<close>

theorem toggle_insufficient_stock_unmodified_witness:
  "order_rows example_df ''1002'' = [example_row ''1002'' ''SKU-A'' 3 (Some 2) ''Not Fulfillable'']
   \<and> Order_Fulfillment_Status (example_row ''1002'' ''SKU-A'' 3 (Some 2) ''Not Fulfillable'') \<noteq> Some ''Fulfillable''
   \<and> (''SKU-A'', 3) \<in> set (quantity_by_sku [example_row ''1002'' ''SKU-A'' 3 (Some 2) ''Not Fulfillable''])
   \<and> filter (\<lambda>r. SKU r = ''SKU-A'') example_df =
        [example_row ''1001'' ''SKU-A'' 1 (Some 2) ''Fulfillable'',
         example_row ''1002'' ''SKU-A'' 3 (Some 2) ''Not Fulfillable'']
   \<and> Final_Stock (example_row ''1001'' ''SKU-A'' 1 (Some 2) ''Fulfillable'') = Some 2
   \<and> (2::int) < 3
   \<and> toggle_order_fulfillment (Some example_df) ''1002'' =
        (False, Some ''Cannot force fulfill. Insufficient stock for SKUs: SKU-A'', Some example_df)"
proof -
  have h1: "order_rows example_df ''1002'' = [example_row ''1002'' ''SKU-A'' 3 (Some 2) ''Not Fulfillable'']"
    by (rule example_rows_1002)
  have h2: "Order_Fulfillment_Status (example_row ''1002'' ''SKU-A'' 3 (Some 2) ''Not Fulfillable'') \<noteq> Some ''Fulfillable''"
    by (simp add: example_row_def)
  have h3: "(''SKU-A'', 3) \<in> set (quantity_by_sku [example_row ''1002'' ''SKU-A'' 3 (Some 2) ''Not Fulfillable''])"
    by (simp add: example_needed_1002)
  have h4: "filter (\<lambda>r. SKU r = ''SKU-A'') example_df =
        [example_row ''1001'' ''SKU-A'' 1 (Some 2) ''Fulfillable'',
         example_row ''1002'' ''SKU-A'' 3 (Some 2) ''Not Fulfillable'']"
    by (simp add: example_df_def example_row_def)
  have h5: "Final_Stock (example_row ''1001'' ''SKU-A'' 1 (Some 2) ''Fulfillable'') = Some 2"
    by (simp add: example_row_def)
  have h6: "(2::int) < 3" by simp
  from toggle_insufficient_stock_unmodified [OF h1 h2 h3 h4 h5 h6]
  have "toggle_order_fulfillment (Some example_df) ''1002'' =
        (False, Some ''Cannot force fulfill. Insufficient stock for SKUs: SKU-A'', Some example_df)"
    by (simp add: example_needed_1002 example_lacking_1002)
  with h1 h2 h3 h4 h5 h6 show ?thesis by (simp only: simp_thms)
qed



text \<open>
  Claim C7 as stated fails: the toggle of an order number that is not in the table returns
  \<open>success = False\<close> with the message \<open>Order number not found.\<close>, which is not the
  message of an insufficient stock.
\<close>

theorem toggle_order_not_found_counterexample:
  "toggle_order_fulfillment (Some example_df) ''9999'' =
     (False, Some ''Order number not found.'', Some example_df)
   \<and> ''Order number not found.'' \<noteq> insufficient_stock_message []"
  by (simp add: toggle_order_fulfillment_def order_rows_def example_df_def example_row_def
      insufficient_stock_message_def)

text \<open>
  Claim C7, amended. A toggle that returns \<open>success = False\<close> returns the table it was
  given, and its message is one of two: \<open>Order number not found.\<close>, when there is no table
  or the order has no row in it, or the message of an insufficient stock, which carries
  the list of the short SKUs, a list that is not empty.
\<close>

theorem toggle_failure_kinds:
  assumes "toggle_order_fulfillment df_opt order_number = (False, err, out)"
  shows "out = df_opt
       \<and> ((err = Some ''Order number not found.''
             \<and> (df_opt = None \<or> (\<exists>df. df_opt = Some df \<and> order_rows df order_number = [])))
          \<or> (\<exists>df. df_opt = Some df
                \<and> lacking_skus df (quantity_by_sku (order_rows df order_number)) \<noteq> []
                \<and> err = Some (insufficient_stock_message
                                (lacking_skus df (quantity_by_sku (order_rows df order_number))))))"
  using toggle_cases [OF assms] by auto

text \<open>The failed toggle of order 1002 of the example table is of the second kind.\<close>

theorem toggle_failure_kinds_witness:
  "toggle_order_fulfillment (Some example_df) ''1002'' =
     (False, Some (insufficient_stock_message [''SKU-A'']), Some example_df)
   \<and> lacking_skus example_df (quantity_by_sku (order_rows example_df ''1002'')) = [''SKU-A'']"
proof -
  have ev: "toggle_order_fulfillment (Some example_df) ''1002'' =
     (False, Some (insufficient_stock_message [''SKU-A'']), Some example_df)"
    by (simp add: toggle_order_fulfillment_def example_rows_1002 example_needed_1002
        example_lacking_1002 example_status_1002 Let_def)
  from toggle_failure_kinds [OF ev] show ?thesis
    using ev by (simp add: example_rows_1002 example_needed_1002 example_lacking_1002)
qed

text \<open>
  Claim C10. A toggle that succeeds returns a table with the rows of the table given, in
  the same number and order, each row changed at most in \<open>Final_Stock\<close> and
  \<open>Order_Fulfillment_Status\<close>. The SKUs of the order all are in the table, so this holds
  for every toggle that succeeds: the branch of the source that appends a row for an SKU
  in no row of the table is never taken.
\<close>

theorem toggle_changes_only_stock_and_status:
  assumes "toggle_order_fulfillment (Some df) order_number = (True, err, out)"
  shows "\<exists>df'. out = Some df'
           \<and> list_all2 only_stock_and_status_differ df df'
           \<and> set (map fst (quantity_by_sku (order_rows df order_number))) \<subseteq> set (map SKU df)"
proof -
  from toggle_cases [OF assms]
  consider (unfulfill) items where
      "out = Some (set_status order_number ''Not Fulfillable''
              (fold (\<lambda>(sku, q). add_final_stock sku q) items df))"
    | (fulfill) items where
      "out = Some (set_status order_number ''Fulfillable''
              (fold (\<lambda>(sku, q). add_final_stock sku (- q)) items df))"
    by auto
  then have "\<exists>df'. out = Some df' \<and> list_all2 only_stock_and_status_differ df df'"
  proof cases
    case unfulfill
    then show ?thesis
      using differ_list_trans [OF differ_fold_add differ_set_status] by simp
  next
    case fulfill
    then show ?thesis
      using differ_list_trans [OF differ_fold_deduct differ_set_status] by simp
  qed
  with needed_skus_in_df [of df order_number] show ?thesis by blast
qed

text \<open>The toggle of order 1001 of the example table succeeds.\<close>

theorem toggle_changes_only_stock_and_status_witness:
  "toggle_order_fulfillment (Some example_df) ''1001'' = (True, None, Some example_df_unfulfilled)
   \<and> list_all2 only_stock_and_status_differ example_df example_df_unfulfilled"
  using toggle_changes_only_stock_and_status [OF example_toggle_1001] example_toggle_1001
  by simp

section \<open>Properties of the rule engine\<close>

lemma usable_columns: "columns df = columns df' \<Longrightarrow> usable df c = usable df' c"
  by (simp add: usable_def split: option.splits)

lemma condition_results_skip:
  "\<not> usable df c \<Longrightarrow> condition_results df (c # conds) = condition_results df conds"
  by simp

lemma condition_results_filter:
  "condition_results df conds = condition_results df (filter (usable df) conds)"
  by (induction conds) (simp_all split: option.splits sum.splits)

lemma condition_results_unusable:
  "\<forall>c \<in> set conds. \<not> usable df c \<Longrightarrow> condition_results df conds = Inr []"
  by (induction conds) simp_all

lemma get_matching_rows_filter:
  "get_matching_rows df rule =
     get_matching_rows df (rule\<lparr>rule_conditions := filter (usable df) (rule_conditions rule)\<rparr>)"
proof (cases "filter (usable df) (rule_conditions rule) = []")
  case True
  then have "\<forall>c \<in> set (rule_conditions rule). \<not> usable df c"
    by (simp add: filter_empty_conv)
  then have "condition_results df (rule_conditions rule) = Inr []"
    by (rule condition_results_unusable)
  with True show ?thesis
    by (simp add: get_matching_rows_def Let_def)
next
  case False
  then have "rule_conditions rule \<noteq> []" by auto
  with False show ?thesis
    using condition_results_filter [of df "rule_conditions rule"]
    by (simp add: get_matching_rows_def Let_def)
qed

lemma get_matching_rows_unusable:
  assumes "\<forall>c \<in> set (rule_conditions rule). \<not> usable df c"
  shows "get_matching_rows df rule = Inr (replicate (length (rows df)) False)"
  using condition_results_unusable [OF assms] by (simp add: get_matching_rows_def Let_def)

lemma list_ex_replicate_False: "\<not> list_ex (\<lambda>m. m) (replicate n False)"
  by (simp add: list_ex_iff)

lemma apply_unusable:
  assumes "\<forall>c \<in> set (rule_conditions rule). \<not> usable (prepare_df_for_actions [rule] df) c"
  shows "RuleEngine_apply [rule] df = Inr (prepare_df_for_actions [rule] df)"
  using get_matching_rows_unusable [OF assms] list_ex_replicate_False
  by (simp add: RuleEngine_apply_def)

text \<open>The pre-scan adds columns and leaves the cells of the columns of the table alone.\<close>

lemma add_if_needed_length: "length (rows (add_if_needed needed name v df)) = length (rows df)"
  by (simp add: add_if_needed_def set_column_def)

lemma add_if_needed_columns: "set (columns df) \<subseteq> set (columns (add_if_needed needed name v df))"
  by (auto simp: add_if_needed_def set_column_def)

lemma add_if_needed_column:
  "c \<in> set (columns df) \<Longrightarrow> column (add_if_needed needed name v df) c = column df c"
  by (auto simp: add_if_needed_def set_column_def column_def)

lemma prepare_length: "length (rows (prepare_df_for_actions rules df)) = length (rows df)"
  by (simp add: prepare_df_for_actions_def Let_def add_if_needed_length)

lemma prepare_columns: "set (columns df) \<subseteq> set (columns (prepare_df_for_actions rules df))"
  unfolding prepare_df_for_actions_def Let_def
  using add_if_needed_columns by (meson subset_trans)

lemma prepare_column:
  assumes "c \<in> set (columns df)"
  shows "column (prepare_df_for_actions rules df) c = column df c"
proof -
  let ?n = "needed_columns rules"
  let ?d1 = "add_if_needed ?n ''Priority'' (Str ''Normal'') df"
  let ?d2 = "add_if_needed ?n ''_is_excluded'' (Flag False) ?d1"
  have c1: "c \<in> set (columns ?d1)" using assms add_if_needed_columns by blast
  have c2: "c \<in> set (columns ?d2)" using c1 add_if_needed_columns by blast
  show ?thesis
    unfolding prepare_df_for_actions_def Let_def
    by (simp only: add_if_needed_column [OF c2] add_if_needed_column [OF c1]
        add_if_needed_column [OF assms])
qed

lemma example_unusable: "\<not> usable example_table cond_absent"
  by (simp add: usable_def cond_absent_def example_table_def)

lemma example_priority_unusable: "\<not> usable example_table cond_priority"
  by (simp add: usable_def cond_priority_def example_table_def)

lemma example_match_all: "get_matching_rows example_table rule_all = Inr [True]"
  by code_simp

lemma example_apply_priority:
  "(case RuleEngine_apply [rule_priority] example_table of
      Inl e \<Rightarrow> False
    | Inr df \<Rightarrow> columns df = [''SKU'', ''Status_Note'', ''Priority'']
               \<and> column df ''Priority'' = [Str ''High''])"
  by code_simp

lemma example_prepared_unusable:
  "\<forall>c \<in> set (rule_conditions rule_unusable).
     \<not> usable (prepare_df_for_actions [rule_unusable] example_table) c"
  by code_simp

lemma example_unusable_all:
  "\<forall>c \<in> set (rule_conditions rule_unusable). \<not> usable example_table c"
  by code_simp

section \<open>Claims on the rule engine\<close>

text \<open>
  Claim C8 as stated fails in two ways. A condition on a column the table does not have is
  skipped, but under \<open>ALL\<close> that is not the same as never matching: the rule with one
  condition that holds and one that is skipped matches the row. And a condition on the
  column \<open>Priority\<close>, which the table does not have, is not skipped by \<open>RuleEngine.apply\<close>
  when an action of the rule sets a priority: the pre-scan makes the column first, the
  condition matches its default and the action changes the row.
\<close>

theorem skipped_condition_counterexample:
  "\<not> usable example_table cond_absent
   \<and> get_matching_rows example_table rule_all = Inr [True]
   \<and> \<not> usable example_table cond_priority
   \<and> column example_table ''Priority'' = [Null]
   \<and> (case RuleEngine_apply [rule_priority] example_table of
         Inl e \<Rightarrow> False
       | Inr df \<Rightarrow> columns df = [''SKU'', ''Status_Note'', ''Priority'']
                  \<and> column df ''Priority'' = [Str ''High''])"
  using example_unusable example_match_all example_priority_unusable example_apply_priority
  by (simp add: column_def example_table_def)

text \<open>
  Claim C8, amended. A condition that is not usable, its operator unknown or its field
  not a column of the table, is dropped from the rule: the rule matches as the rule with
  its usable conditions alone does, and the engine does not fail on it. A rule with no
  usable condition matches no row. When no condition of a rule is usable on the table as
  the pre-scan leaves it, applying the rule runs none of its actions: the result is the
  table of the pre-scan, with the rows of the table given and every cell of every column
  it had unchanged.
\<close>

theorem unusable_conditions_skipped:
  "get_matching_rows df rule =
     get_matching_rows df (rule\<lparr>rule_conditions := filter (usable df) (rule_conditions rule)\<rparr>)
   \<and> ((\<forall>c \<in> set (rule_conditions rule). \<not> usable df c) \<longrightarrow>
        get_matching_rows df rule = Inr (replicate (length (rows df)) False))
   \<and> ((\<forall>c \<in> set (rule_conditions rule). \<not> usable (prepare_df_for_actions [rule] df) c) \<longrightarrow>
        RuleEngine_apply [rule] df = Inr (prepare_df_for_actions [rule] df)
        \<and> length (rows (prepare_df_for_actions [rule] df)) = length (rows df)
        \<and> (\<forall>c \<in> set (columns df).
              c \<in> set (columns (prepare_df_for_actions [rule] df))
              \<and> column (prepare_df_for_actions [rule] df) c = column df c))"
  using get_matching_rows_filter [of df rule] get_matching_rows_unusable [of rule df]
    apply_unusable [of rule df] prepare_length [of "[rule]" df] prepare_columns [of df "[rule]"]
    prepare_column [of _ df "[rule]"]
  by blast

text \<open>The rule with the one condition on a column the example table lacks.\<close>

theorem unusable_conditions_skipped_witness:
  "rule_conditions rule_unusable = [cond_absent]
   \<and> \<not> usable example_table cond_absent
   \<and> \<not> usable (prepare_df_for_actions [rule_unusable] example_table) cond_absent
   \<and> get_matching_rows example_table rule_unusable = Inr [False]
   \<and> RuleEngine_apply [rule_unusable] example_table =
        Inr (prepare_df_for_actions [rule_unusable] example_table)
   \<and> column (prepare_df_for_actions [rule_unusable] example_table) ''SKU'' = [Str ''A'']"
proof -
  have cols: "''SKU'' \<in> set (columns example_table)"
    by (simp add: example_table_def)
  have sku: "column example_table ''SKU'' = [Str ''A'']"
    by (simp add: column_def example_table_def)
  have len: "length (rows example_table) = 1"
    by (simp add: example_table_def)
  from unusable_conditions_skipped [of example_table rule_unusable] example_unusable_all
  have m: "get_matching_rows example_table rule_unusable =
             Inr (replicate (length (rows example_table)) False)"
    by blast
  from unusable_conditions_skipped [of example_table rule_unusable] example_prepared_unusable
  have a: "RuleEngine_apply [rule_unusable] example_table =
             Inr (prepare_df_for_actions [rule_unusable] example_table)"
    and c: "\<forall>c \<in> set (columns example_table).
              column (prepare_df_for_actions [rule_unusable] example_table) c = column example_table c"
    by blast+
  have conds: "rule_conditions rule_unusable = [cond_absent]"
    by (simp add: rule_unusable_def)
  from m a c example_unusable_all example_prepared_unusable cols sku len conds
  show ?thesis by simp
qed

text \<open>
  Claim C9 at a tag that holds the separator. The rule adds the tag \<open>a, b\<close> to the rows
  whose SKU is \<open>A\<close>. The first application writes the bare tag into the empty note. The
  tag is in no list \<open>note.split(", ")\<close>, whose texts hold no separator, so the second
  application does not find it and appends it again: the note after two applications is
  not the note after one.
\<close>

theorem add_tag_twice_appends_again:
  "(case RuleEngine_apply [rule_tag_list] example_table of
      Inl e \<Rightarrow> False
    | Inr df1 \<Rightarrow>
        column df1 ''Status_Note'' = [Str ''a, b'']
        \<and> (case RuleEngine_apply [rule_tag_list] df1 of
              Inl e \<Rightarrow> False
            | Inr df2 \<Rightarrow> column df2 ''Status_Note'' = [Str ''a, b, a, b'']))"
  by code_simp

section \<open>Properties of the fulfillment simulation\<close>

lemma can_fulfill_order_iff:
  "can_fulfill_order live_stock order_items =
     (\<forall>i \<in> set order_items. item_Quantity i \<le> dict_get live_stock (item_SKU i) 0)"
  by (induction order_items) auto

lemma write_off_result:
  "write_off live_stock order_items = Inr live_stock' \<Longrightarrow>
     live_stock' sku = map_option (\<lambda>v. v - sku_quantity order_items sku) (live_stock sku)"
proof (induction order_items arbitrary: live_stock)
  case Nil
  then show ?case by (simp add: sku_quantity_def option.map_ident)
next
  case (Cons item order_items)
  from Cons.prems obtain v where v: "live_stock (item_SKU item) = Some v"
    and rest: "write_off (live_stock(item_SKU item \<mapsto> v - item_Quantity item)) order_items = Inr live_stock'"
    by (auto split: option.splits)
  from Cons.IH [OF rest] v show ?case
    by (auto simp: sku_quantity_def)
qed

lemma write_off_dom: "write_off live_stock order_items = Inr live_stock' \<Longrightarrow> dom live_stock' = dom live_stock"
proof (induction order_items arbitrary: live_stock)
  case Nil
  then show ?case by simp
next
  case (Cons item order_items)
  from Cons.prems obtain v where v: "live_stock (item_SKU item) = Some v"
    and rest: "write_off (live_stock(item_SKU item \<mapsto> v - item_Quantity item)) order_items = Inr live_stock'"
    by (auto split: option.splits)
  from Cons.IH [OF rest] have "dom live_stock' = insert (item_SKU item) (dom live_stock)"
    by (simp only: dom_fun_upd option.distinct if_False)
  also have "\<dots> = dom live_stock"
    using v by (simp add: insert_absorb domI)
  finally show ?case .
qed

lemma write_off_succeeds:
  "\<forall>i \<in> set order_items. item_SKU i \<in> dom live_stock \<Longrightarrow>
     \<exists>live_stock'. write_off live_stock order_items = Inr live_stock'"
proof (induction order_items arbitrary: live_stock)
  case Nil
  show ?case by simp
next
  case (Cons item order_items)
  from Cons.prems obtain v where v: "live_stock (item_SKU item) = Some v"
    by auto
  have "\<forall>i \<in> set order_items. item_SKU i \<in> dom (live_stock(item_SKU item \<mapsto> v - item_Quantity item))"
    using Cons.prems by auto
  from Cons.IH [OF this] obtain l where
    "write_off (live_stock(item_SKU item \<mapsto> v - item_Quantity item)) order_items = Inr l" ..
  then have "write_off live_stock (item # order_items) = Inr l"
    by (simp only: write_off.simps v option.case)
  then show ?case by blast
qed

text \<open>What one pass of the loop does, when it returns.\<close>

lemma allocate_order_cases:
  assumes "allocate_order owc n (live_stock, results) = Inr (live_stock', results')"
  shows "(can_fulfill_order live_stock (order_items_of owc n)
            \<and> results' = results(n \<mapsto> ''Fulfillable'')
            \<and> (\<forall>sku. live_stock' sku =
                  map_option (\<lambda>v. v - sku_quantity (order_items_of owc n) sku) (live_stock sku)))
       \<or> (\<not> can_fulfill_order live_stock (order_items_of owc n)
            \<and> results' = results(n \<mapsto> ''Not Fulfillable'')
            \<and> live_stock' = live_stock)"
proof (cases "can_fulfill_order live_stock (order_items_of owc n)")
  case True
  with assms obtain l where l: "write_off live_stock (order_items_of owc n) = Inr l"
    and out: "live_stock' = l" "results' = results(n \<mapsto> ''Fulfillable'')"
    by (auto simp: allocate_order_def Let_def split: sum.splits)
  from write_off_result [OF l] True out show ?thesis by simp
next
  case False
  with assms show ?thesis by (simp add: allocate_order_def Let_def)
qed

lemma allocate_order_dom:
  assumes "allocate_order owc n (live_stock, results) = Inr (live_stock', results')"
  shows "dom live_stock' = dom live_stock"
  using allocate_order_cases [OF assms] by (auto simp: dom_def split: option.splits)

lemma simulate_append:
  "simulate owc (xs @ ys) state =
     (case simulate owc xs state of Inl e \<Rightarrow> Inl e | Inr state' \<Rightarrow> simulate owc ys state')"
  by (induction xs arbitrary: state) (simp_all split: sum.splits)

text \<open>
  The simulation over a list of distinct orders, when it returns: the orders of the list
  are decided, the results of the others are left, and the live stock of an SKU is what it
  was less the quantities of the orders found Fulfillable.
\<close>

lemma simulate_result:
  assumes "simulate owc ns (live_stock, results) = Inr (live_stock', results')" and "distinct ns"
  shows "(\<forall>n. n \<notin> set ns \<longrightarrow> results' n = results n)
       \<and> (\<forall>n \<in> set ns. results' n = Some ''Fulfillable'' \<or> results' n = Some ''Not Fulfillable'')
       \<and> (\<forall>sku. live_stock' sku =
             map_option (\<lambda>v. v - sum_list (map (\<lambda>n. sku_quantity (order_items_of owc n) sku)
                                          (filter (\<lambda>n. results' n = Some ''Fulfillable'') ns)))
               (live_stock sku))"
  using assms
proof (induction ns arbitrary: live_stock results)
  case Nil
  then show ?case by (simp add: option.map_ident)
next
  case (Cons n ns)
  from Cons.prems(1) obtain l1 r1 where
    step: "allocate_order owc n (live_stock, results) = Inr (l1, r1)"
    and rest: "simulate owc ns (l1, r1) = Inr (live_stock', results')"
    by (auto split: sum.splits)
  from Cons.prems(2) have d: "distinct ns" and n: "n \<notin> set ns" by simp_all
  note IH = Cons.IH [OF rest d]
  from IH n have rn: "results' n = r1 n" by simp
  from allocate_order_cases [OF step] show ?case
  proof
    assume a: "can_fulfill_order live_stock (order_items_of owc n)
            \<and> r1 = results(n \<mapsto> ''Fulfillable'')
            \<and> (\<forall>sku. l1 sku = map_option (\<lambda>v. v - sku_quantity (order_items_of owc n) sku) (live_stock sku))"
    then have f: "results' n = Some ''Fulfillable''" using rn by simp
    have others: "\<forall>m. m \<notin> set (n # ns) \<longrightarrow> results' m = results m"
      using IH a by simp
    have stock: "live_stock' sku =
             map_option (\<lambda>v. v - sum_list (map (\<lambda>n. sku_quantity (order_items_of owc n) sku)
                                          (filter (\<lambda>n. results' n = Some ''Fulfillable'') (n # ns))))
               (live_stock sku)" for sku
    proof -
      from IH have "live_stock' sku =
             map_option (\<lambda>v. v - sum_list (map (\<lambda>n. sku_quantity (order_items_of owc n) sku)
                                          (filter (\<lambda>n. results' n = Some ''Fulfillable'') ns)))
               (l1 sku)" by blast
      with a f show ?thesis
        by (cases "live_stock sku") (simp_all add: algebra_simps)
    qed
    from f others stock IH show ?thesis by simp
  next
    assume a: "\<not> can_fulfill_order live_stock (order_items_of owc n)
            \<and> r1 = results(n \<mapsto> ''Not Fulfillable'')
            \<and> l1 = live_stock"
    then have f: "results' n = Some ''Not Fulfillable''" using rn by simp
    have others: "\<forall>m. m \<notin> set (n # ns) \<longrightarrow> results' m = results m"
      using IH a by simp
    from IH a f have stock: "\<forall>sku. live_stock' sku =
             map_option (\<lambda>v. v - sum_list (map (\<lambda>n. sku_quantity (order_items_of owc n) sku)
                                          (filter (\<lambda>n. results' n = Some ''Fulfillable'') (n # ns))))
               (live_stock sku)" by simp
    from f others stock IH show ?thesis by simp
  qed
qed

lemma map_of_keys:
  "map_of (map (\<lambda>k. (k, g k)) ks) n = (if n \<in> set ks then Some (g n) else None)"
  by (induction ks) auto

lemma order_numbers_iff:
  "n \<in> set (order_numbers items) \<longleftrightarrow> (\<exists>i \<in> set items. item_Order_Number i = Some n)"
  by (force simp: order_numbers_def split: option.splits)

lemma order_item_counts_lookup:
  "map_of (order_item_counts items) n =
     (if n \<in> set (order_numbers items)
      then Some (length (filter (\<lambda>i. item_Order_Number i = Some n) items)) else None)"
  by (simp add: order_item_counts_def map_of_keys)

text \<open>Every line with an order number is in the merged table, with the count of its order.\<close>

lemma orders_with_counts_iff:
  "(i, n, c) \<in> set (orders_with_counts items) \<longleftrightarrow>
     i \<in> set items \<and> item_Order_Number i = Some n
     \<and> c = length (filter (\<lambda>j. item_Order_Number j = Some n) items)"
proof -
  have "(i, n, c) \<in> set (orders_with_counts items) \<longleftrightarrow>
          i \<in> set items \<and> item_Order_Number i = Some n \<and> map_of (order_item_counts items) n = Some c"
    by (auto simp: orders_with_counts_def split: option.splits)
  also have "\<dots> \<longleftrightarrow> i \<in> set items \<and> item_Order_Number i = Some n
     \<and> c = length (filter (\<lambda>j. item_Order_Number j = Some n) items)"
    using order_numbers_iff [of n items] by (auto simp: order_item_counts_lookup)
  finally show ?thesis .
qed

lemma orders_with_counts_count:
  assumes "(i, n, c) \<in> set (orders_with_counts items)"
  shows "c = length (order_items_of (orders_with_counts items) n)"
proof -
  have "order_items_of (orders_with_counts items) n = filter (\<lambda>j. item_Order_Number j = Some n) items"
  proof -
    have "\<And>xs. map fst (filter (\<lambda>(i, n', c). n' = n)
             (concat (map (\<lambda>i. case item_Order_Number i of
                          None \<Rightarrow> []
                        | Some m \<Rightarrow> (case map_of (order_item_counts items) m of
                                       None \<Rightarrow> []
                                     | Some c \<Rightarrow> [(i, m, c)])) xs)))
           = filter (\<lambda>j. item_Order_Number j = Some n \<and> n \<in> set (order_numbers items)) xs"
      subgoal for xs
        by (induction xs) (auto simp: order_item_counts_lookup split: option.splits)
      done
    then have "order_items_of (orders_with_counts items) n =
                 filter (\<lambda>j. item_Order_Number j = Some n \<and> n \<in> set (order_numbers items)) items"
      by (simp add: order_items_of_def orders_with_counts_def)
    also have "\<dots> = filter (\<lambda>j. item_Order_Number j = Some n) items"
      by (rule filter_cong) (auto simp: order_numbers_iff)
    finally show ?thesis .
  qed
  with assms show ?thesis by (simp add: orders_with_counts_iff)
qed

lemma order_items_of_member:
  "i \<in> set (order_items_of owc n) \<longleftrightarrow> (\<exists>c. (i, n, c) \<in> set owc)"
  by (force simp: order_items_of_def)

text \<open>The prioritized orders: each order once, in the order of the keys.\<close>

lemma drop_duplicates_set: "set (drop_duplicates xs) = set xs"
  by (simp add: drop_duplicates_def)

lemma drop_duplicates_distinct: "distinct (drop_duplicates xs)"
  by (simp add: drop_duplicates_def)

lemma prioritized_orders_set: "set (prioritized_orders owc) = snd ` set owc"
  by (simp add: prioritized_orders_def drop_duplicates_set)

lemma prioritized_orders_distinct: "distinct (prioritized_orders owc)"
  by (simp add: prioritized_orders_def drop_duplicates_distinct)

lemma prioritized_orders_sorted:
  "sorted (map (\<lambda>(order_number, item_count). (- int item_count, order_number)) (prioritized_orders owc))"
  by (simp add: prioritized_orders_def)

lemma prioritized_orders_names_distinct:
  "distinct (map fst (prioritized_orders (orders_with_counts items)))"
proof -
  let ?owc = "orders_with_counts items"
  have "inj_on fst (set (prioritized_orders ?owc))"
  proof (rule inj_onI)
    fix x y
    assume x: "x \<in> set (prioritized_orders ?owc)" and y: "y \<in> set (prioritized_orders ?owc)"
      and eq: "fst x = fst y"
    from x obtain i where "(i, fst x, snd x) \<in> set ?owc"
      by (force simp: prioritized_orders_set)
    then have cx: "snd x = length (filter (\<lambda>j. item_Order_Number j = Some (fst x)) items)"
      by (simp only: orders_with_counts_iff)
    from y obtain j where "(j, fst y, snd y) \<in> set ?owc"
      by (force simp: prioritized_orders_set)
    then have cy: "snd y = length (filter (\<lambda>j. item_Order_Number j = Some (fst y)) items)"
      by (simp only: orders_with_counts_iff)
    from cx cy eq have "snd x = snd y"
      by simp
    with eq show "x = y" by (simp add: prod_eq_iff)
  qed
  with prioritized_orders_distinct show ?thesis
    by (simp add: distinct_map)
qed

lemma prioritized_orders_names:
  "set (map fst (prioritized_orders owc)) = (\<lambda>(i, n, c). n) ` set owc"
  by (force simp: prioritized_orders_set)

end
